theory Spec2Isabelle
  imports
    Complex_Main
    "HOL-Library.Word"
    "HOL-Library.Signed_Division"
    "HOL-Library.List_Lexorder"
    "HOL-Library.Char_ord"
begin

unbundle bit_operations_syntax

section \<open>Go primitives used by the interpreter\<close>

text \<open>
  The runtime stores \<^verbatim>\<open>int16\<close>, \<^verbatim>\<open>int32\<close> and \<^verbatim>\<open>int64\<close> values; they are words of
  that width, read as two's complement by \<open>sint\<close>. Go's \<^verbatim>\<open>int\<close> (subscripts, bounds,
  counters, columns) is modelled by \<open>int\<close>: none of the modelled code can bring it near
  \<open>2 ^ 63\<close>.

  A finite \<^verbatim>\<open>float32\<close> or \<^verbatim>\<open>float64\<close> is identified with the real number it denotes;
  NaN and the infinities are outside the model. Comparison, truncation to an integer,
  \<^verbatim>\<open>math.RoundToEven\<close> and the conversions from the integer kinds are exact on finite
  floats and are modelled exactly. The rounding of an arithmetic result to
  \<^verbatim>\<open>float64\<close>, and of a \<^verbatim>\<open>float64\<close> to \<^verbatim>\<open>float32\<close>, is done by the functions
  \<open>Round64\<close> and \<open>Float32\<close> of the record of externals below.
\<close>

type_synonym int16 = "16 word"
type_synonym int32 = "32 word"
type_synonym int64 = "64 word"
type_synonym float64 = real

text \<open>A conversion from a float to an integer type discards the fraction (truncation
  towards zero). For a value that does not fit the integer type Go leaves the result of
  the conversion to the implementation: the conversions \<open>int16_of_float\<close>,
  \<open>int32_of_float\<close> and \<open>int64_of_float\<close>, further down, take it from the externals.\<close>

definition truncate_float :: "float64 \<Rightarrow> int" where
  "truncate_float f = (if 0 \<le> f then \<lfloor>f\<rfloor> else \<lceil>f\<rceil>)"

definition float_of_int64 :: "int64 \<Rightarrow> float64" where
  "float_of_int64 w = real_of_int (sint w)"

text \<open>\<^verbatim>\<open>math.RoundToEven\<close> of the Go library: the nearest integer, a tie going to the
  even one.\<close>

definition RoundToEven :: "float64 \<Rightarrow> float64" where
  "RoundToEven x =
     (let f = \<lfloor>x\<rfloor>; d = x - real_of_int f in
      if d < 1 / 2 then real_of_int f
      else if 1 / 2 < d then real_of_int (f + 1)
      else if even f then real_of_int f else real_of_int (f + 1))"

text \<open>Integer division and remainder of Go on \<^verbatim>\<open>int64\<close>: truncated, the remainder with
  the sign of the dividend, the most negative value divided by \<open>-1\<close> wrapping to
  itself. A zero divisor is a run-time panic, which the callers below make explicit.\<close>

definition int64_quo :: "int64 \<Rightarrow> int64 \<Rightarrow> int64" where
  "int64_quo a b = word_of_int (sint a sdiv sint b)"

definition int64_rem :: "int64 \<Rightarrow> int64 \<Rightarrow> int64" where
  "int64_rem a b = word_of_int (sint a smod sint b)"

text \<open>\<^verbatim>\<open>strings.ToUpper\<close> follows the Unicode tables and is one of the externals
  below. On ASCII text it is the following function, which the concrete host uses.\<close>

definition ascii_upper_char :: "char \<Rightarrow> char" where
  "ascii_upper_char c =
     (if CHR ''a'' \<le> c \<and> c \<le> CHR ''z'' then char_of (of_char c - (32::nat)) else c)"

definition ascii_ToUpper :: "string \<Rightarrow> string" where
  "ascii_ToUpper s = map ascii_upper_char s"

text \<open>\<^verbatim>\<open>fmt.Sprintf("%d", n)\<close>.\<close>

fun nat_digits :: "nat \<Rightarrow> string" where
  "nat_digits n =
     (if n < 10 then [''0123456789'' ! n]
      else nat_digits (n div 10) @ [''0123456789'' ! (n mod 10)])"

declare nat_digits.simps [simp del]

definition itoa :: "int \<Rightarrow> string" where
  "itoa n = (if n < 0 then CHR ''-'' # nat_digits (nat (- n)) else nat_digits (nat n))"

text \<open>\<^verbatim>\<open>fmt.Sscanf(s, "%d", &n)\<close> as \<open>parseLineNumber\<close> uses it. The scan first skips
  space: the ASCII blanks and the UTF-8 encodings of the other Unicode spaces
  (\<open>U+0085\<close>, \<open>U+00A0\<close>, \<open>U+1680\<close>, \<open>U+2000\<close> to \<open>U+200A\<close>, \<open>U+2028\<close>, \<open>U+2029\<close>,
  \<open>U+202F\<close>, \<open>U+205F\<close>, \<open>U+3000\<close>); a newline met there is an error. Then an optional
  sign and at least one decimal digit are read, and the rest of the input is left alone;
  with no digit, or a value outside the \<^verbatim>\<open>int\<close> range, the scan reports an error.\<close>

definition is_digit :: "char \<Rightarrow> bool" where
  "is_digit c = (CHR ''0'' \<le> c \<and> c \<le> CHR ''9'')"

definition ascii_space :: "char \<Rightarrow> bool" where
  "ascii_space c =
     (c = CHR 0x09 \<or> c = CHR 0x0B \<or> c = CHR 0x0C \<or> c = CHR 0x0D \<or> c = CHR 0x20)"

text \<open>The number of bytes of the Unicode space at the head of the text, 0 when there is
  none.\<close>

fun space_width :: "string \<Rightarrow> nat" where
  "space_width (a # b # c # cs) =
     (if ascii_space a then 1
      else if a = CHR 0xC2 \<and> (b = CHR 0x85 \<or> b = CHR 0xA0) then 2
      else if a = CHR 0xE1 \<and> b = CHR 0x9A \<and> c = CHR 0x80 then 3
      else if a = CHR 0xE2 \<and> b = CHR 0x80 \<and>
              ((CHR 0x80 \<le> c \<and> c \<le> CHR 0x8A) \<or> c = CHR 0xA8 \<or> c = CHR 0xA9 \<or> c = CHR 0xAF)
      then 3
      else if a = CHR 0xE2 \<and> b = CHR 0x81 \<and> c = CHR 0x9F then 3
      else if a = CHR 0xE3 \<and> b = CHR 0x80 \<and> c = CHR 0x80 then 3
      else 0)"
| "space_width [a, b] =
     (if ascii_space a then 1
      else if a = CHR 0xC2 \<and> (b = CHR 0x85 \<or> b = CHR 0xA0) then 2
      else 0)"
| "space_width [a] = (if ascii_space a then 1 else 0)"
| "space_width [] = 0"

text \<open>\<^verbatim>\<open>SkipSpace\<close>: \<open>None\<close> is the error on a newline.\<close>

function SkipSpace :: "string \<Rightarrow> string option" where
  "SkipSpace s =
     (if s = [] then Some []
      else if hd s = CHR 0x0A then None
      else if space_width s = 0 then Some s
      else SkipSpace (drop (space_width s) s))"
  by pat_completeness auto
termination
  by (relation "measure length") auto

declare SkipSpace.simps [simp del]

definition digits_value :: "string \<Rightarrow> int" where
  "digits_value ds = foldl (\<lambda>acc c. 10 * acc + (int (of_char c) - 48)) 0 ds"

definition Sscanf_d :: "string \<Rightarrow> int option" where
  "Sscanf_d s =
     (case SkipSpace s of
        None \<Rightarrow> None
      | Some t \<Rightarrow>
          (let neg = (t \<noteq> [] \<and> hd t = CHR ''-'');
               u = (if t \<noteq> [] \<and> (hd t = CHR ''-'' \<or> hd t = CHR ''+'') then tl t else t);
               ds = takeWhile is_digit u;
               n = (if neg then - digits_value ds else digits_value ds)
           in if ds = [] then None
              else if n < - (2 ^ 63) \<or> 2 ^ 63 \<le> n then None
              else Some n))"

definition parseLineNumber :: "string \<Rightarrow> int option" where
  "parseLineNumber s = Sscanf_d s"

section \<open>The syntax tree\<close>

datatype DataType =
  TypeUnknown | TypeInteger | TypeLong | TypeSingle | TypeDouble | TypeString


text \<open>The expression nodes. The \<^verbatim>\<open>Line\<close> fields are left out. \<open>OtherExpr\<close> stands for
  a node that \<^verbatim>\<open>evaluate\<close> has no case for (a nil expression included); it carries the
  text that \<^verbatim>\<open>%T\<close> prints.\<close>

datatype Expression =
    IntegerLiteral int64
  | FloatLiteral float64
  | StringLiteral string
  | Identifier string DataType
  | ArrayAccess string "Expression list"
  | BinaryExpr Expression string Expression
  | UnaryExpr string Expression
  | CallExpr string "Expression list"
  | GroupedExpr Expression
  | OtherExpr string


record PrintItem =
  Expression :: "Expression option"
  Separator :: string

record DimVariable =
  VarName :: string
  VarDimensions :: "Expression list"
  VarDataType :: DataType

text \<open>The statements whose execution is modelled; \<open>OtherStmt\<close> stands for every other
  statement node.\<close>

datatype Statement =
    LineNumberStmt int
  | LabelStmt string
  | LetStmt Expression Expression
  | PrintStmt "PrintItem list" bool
  | DimStmt "DimVariable list"
  | DataStmt "Expression list"
  | RestoreStmt string
  | OtherStmt

text \<open>The parsed program: the statement array and its side tables. (The tables of SUB
  and FUNCTION definitions are left out; calls of user routines go through
  \<open>CallNonArray\<close> below.)\<close>

record Program =
  Statements :: "Statement list"
  Labels :: "string \<rightharpoonup> int"
  LineNumbers :: "int \<rightharpoonup> int"
  DataItems :: "Expression list"

definition NewProgram :: Program where
  "NewProgram = \<lparr>Statements = [], Labels = Map.empty, LineNumbers = Map.empty, DataItems = []\<rparr>"

section \<open>Values\<close>

datatype Value =
    IntegerValue int16
  | LongValue int32
  | SingleValue float64
  | DoubleValue float64
  | StringValue string

datatype error =
    Errorf string
  | RuntimePanic string


text \<open>An array object: its element kind, its bounds and its row-major storage.\<close>

record ArrayDimension =
  Lower :: int
  Upper :: int

record Array =
  DataType :: DataType
  Dimensions :: "ArrayDimension list"
  Data :: "Value list"

text \<open>A scope. The map \<open>arrays\<close> holds pointers to array objects: addresses into the
  store of the interpreter below, so that a write through a pointer fetched earlier
  lands in the object it was fetched for. The parent scope is the enclosing one. (The
  source's \<^verbatim>\<open>shared\<close> pointer always equals \<^verbatim>\<open>parent\<close> and is read by
  \<^verbatim>\<open>SetShared\<close> only, which has no caller.)\<close>

datatype Environment =
  Environment
    (variables: "string \<rightharpoonup> Value")
    (arrays: "string \<rightharpoonup> nat")
    (constants: "string \<rightharpoonup> Value")
    (parent: "Environment option")

record ExecutionState =
  ProgramCounter :: int
  DataPointer :: int
  Running :: bool

text \<open>The interpreter. \<open>store\<close> holds the array objects by address and \<open>nextAddr\<close> is
  the next unused address; \<open>printed\<close> lists the strings handed to the output callback,
  oldest first; \<open>outside\<close> stands for the state the model does not look into (the
  random generator of the registry, the open files, the clock).\<close>

record Interpreter =
  program :: Program
  env :: Environment
  state :: ExecutionState
  store :: "nat \<rightharpoonup> Array"
  nextAddr :: nat
  printed :: "string list"
  outside :: nat

text \<open>What the modelled code calls and this development does not define:
  \<^item> \<open>ToUpper\<close>: \<^verbatim>\<open>strings.ToUpper\<close>;
  \<^item> \<open>ParseFloat\<close>: \<^verbatim>\<open>strconv.ParseFloat(strings.TrimSpace(s), 64)\<close>, its value only
    (0 when the text is no number);
  \<^item> \<open>ParseInt\<close>: \<^verbatim>\<open>strconv.ParseInt(strings.TrimSpace(s), 10, 64)\<close>, likewise;
  \<^item> \<open>FormatFloatG\<close>: \<^verbatim>\<open>strconv.FormatFloat(f, 'G', -1, 64)\<close>;
  \<^item> \<open>Sprintf_g32\<close>, \<open>Sprintf_g64\<close>: \<^verbatim>\<open>fmt.Sprintf("%g", f)\<close> for a \<^verbatim>\<open>float32\<close> and
    for a \<^verbatim>\<open>float64\<close>;
  \<^item> \<open>Round64\<close>, \<open>Float32\<close>: rounding of a real result to \<^verbatim>\<open>float64\<close>, \<^verbatim>\<open>float32\<close>;
  \<^item> \<open>Int16OutOfRange\<close>, \<open>Int32OutOfRange\<close>, \<open>Int64OutOfRange\<close>: the result of
    \<^verbatim>\<open>int16(f)\<close>, \<^verbatim>\<open>int32(f)\<close> and \<^verbatim>\<open>int64(f)\<close> for a float whose truncation does not
    fit the type, which Go leaves to the implementation;
  \<^item> \<open>RegisteredCall\<close>: the body of a function that the registry of built-ins holds
    (with its random generator and its clock);
  \<^item> \<open>GetNextFreeFile\<close>: the method of that name, over the table of open files;
  \<^item> \<open>CallNonArray\<close>: what \<^verbatim>\<open>evaluateCallExpr\<close> does once the name is known not to be
    an array (user-defined functions, the file functions, the registry of built-ins).\<close>

record Externals =
  ToUpper :: "string \<Rightarrow> string"
  ParseFloat :: "string \<Rightarrow> float64"
  ParseInt :: "string \<Rightarrow> int64"
  FormatFloatG :: "float64 \<Rightarrow> string"
  Sprintf_g32 :: "float64 \<Rightarrow> string"
  Sprintf_g64 :: "float64 \<Rightarrow> string"
  Round64 :: "real \<Rightarrow> float64"
  Float32 :: "float64 \<Rightarrow> float64"
  Int16OutOfRange :: "float64 \<Rightarrow> int16"
  Int32OutOfRange :: "float64 \<Rightarrow> int32"
  Int64OutOfRange :: "float64 \<Rightarrow> int64"
  RegisteredCall :: "Interpreter \<Rightarrow> string \<Rightarrow> Value list \<Rightarrow> (error + Value) \<times> Interpreter"
  GetNextFreeFile :: "Interpreter \<Rightarrow> int"
  CallNonArray :: "Interpreter \<Rightarrow> string \<Rightarrow> Expression list \<Rightarrow> (error + Value) \<times> Interpreter"

text \<open>The body of the loop of \<^verbatim>\<open>ParseProgram\<close>, for one parsed statement: the side
  tables are filled in, then the statement is appended.\<close>

definition addStatement :: "Externals \<Rightarrow> Program \<Rightarrow> Statement \<Rightarrow> Program" where
  "addStatement X prog stmt =
     (let p1 =
        (case stmt of
           LineNumberStmt n \<Rightarrow>
             prog\<lparr>LineNumbers := (LineNumbers prog)(n \<mapsto> int (length (Statements prog)))\<rparr>
         | LabelStmt name \<Rightarrow>
             prog\<lparr>Labels :=
               (Labels prog)(ToUpper X name \<mapsto> int (length (Statements prog)))\<rparr>
         | DataStmt vals \<Rightarrow>
             prog\<lparr>DataItems := DataItems prog @ vals\<rparr>
         | _ \<Rightarrow> prog)
      in p1\<lparr>Statements := Statements p1 @ [stmt]\<rparr>)"

definition ParseProgram :: "Externals \<Rightarrow> Statement list \<Rightarrow> Program" where
  "ParseProgram X stmts = foldl (addStatement X) NewProgram stmts"

text \<open>The conversions \<^verbatim>\<open>int16(f)\<close>, \<^verbatim>\<open>int32(f)\<close> and \<^verbatim>\<open>int64(f)\<close> of a float: the
  truncated value when it fits the type, and otherwise what the implementation gives.\<close>

definition int16_of_float :: "Externals \<Rightarrow> float64 \<Rightarrow> int16" where
  "int16_of_float X f =
     (if - 32768 \<le> truncate_float f \<and> truncate_float f \<le> 32767
      then word_of_int (truncate_float f) else Int16OutOfRange X f)"

definition int32_of_float :: "Externals \<Rightarrow> float64 \<Rightarrow> int32" where
  "int32_of_float X f =
     (if - 2147483648 \<le> truncate_float f \<and> truncate_float f \<le> 2147483647
      then word_of_int (truncate_float f) else Int32OutOfRange X f)"

definition int64_of_float :: "Externals \<Rightarrow> float64 \<Rightarrow> int64" where
  "int64_of_float X f =
     (if - 9223372036854775808 \<le> truncate_float f \<and> truncate_float f \<le> 9223372036854775807
      then word_of_int (truncate_float f) else Int64OutOfRange X f)"

subsection \<open>Methods of values\<close>

fun Value_Type :: "Value \<Rightarrow> DataType" where
  "Value_Type (IntegerValue v) = TypeInteger"
| "Value_Type (LongValue v) = TypeLong"
| "Value_Type (SingleValue v) = TypeSingle"
| "Value_Type (DoubleValue v) = TypeDouble"
| "Value_Type (StringValue v) = TypeString"

definition formatFloat :: "Externals \<Rightarrow> float64 \<Rightarrow> string" where
  "formatFloat X f =
     (if f = float_of_int64 (int64_of_float X f) \<and> \<bar>f\<bar> < 10 ^ 15
      then itoa (sint (int64_of_float X f))
      else FormatFloatG X f)"

fun Value_String :: "Externals \<Rightarrow> Value \<Rightarrow> string" where
  "Value_String X (IntegerValue v) = itoa (sint v)"
| "Value_String X (LongValue v) = itoa (sint v)"
| "Value_String X (SingleValue v) = formatFloat X v"
| "Value_String X (DoubleValue v) = formatFloat X v"
| "Value_String X (StringValue v) = v"

fun ToFloat :: "Externals \<Rightarrow> Value \<Rightarrow> float64" where
  "ToFloat X (IntegerValue v) = real_of_int (sint v)"
| "ToFloat X (LongValue v) = real_of_int (sint v)"
| "ToFloat X (SingleValue v) = v"
| "ToFloat X (DoubleValue v) = v"
| "ToFloat X (StringValue v) = ParseFloat X v"

fun ToInt :: "Externals \<Rightarrow> Value \<Rightarrow> int64" where
  "ToInt X (IntegerValue v) = scast v"
| "ToInt X (LongValue v) = scast v"
| "ToInt X (SingleValue v) = int64_of_float X v"
| "ToInt X (DoubleValue v) = int64_of_float X v"
| "ToInt X (StringValue v) = ParseInt X v"

fun ToBool :: "Value \<Rightarrow> bool" where
  "ToBool (IntegerValue v) = (v \<noteq> 0)"
| "ToBool (LongValue v) = (v \<noteq> 0)"
| "ToBool (SingleValue v) = (v \<noteq> 0)"
| "ToBool (DoubleValue v) = (v \<noteq> 0)"
| "ToBool (StringValue v) = (v \<noteq> [])"

definition ToString :: "Externals \<Rightarrow> Value \<Rightarrow> string" where
  "ToString X v = Value_String X v"

fun DefaultValue :: "DataType \<Rightarrow> Value" where
  "DefaultValue TypeInteger = IntegerValue 0"
| "DefaultValue TypeLong = LongValue 0"
| "DefaultValue TypeSingle = SingleValue 0"
| "DefaultValue TypeDouble = DoubleValue 0"
| "DefaultValue TypeString = StringValue []"
| "DefaultValue TypeUnknown = SingleValue 0"

definition CoerceValue :: "Externals \<Rightarrow> Value \<Rightarrow> DataType \<Rightarrow> Value" where
  "CoerceValue X val targetType =
     (if Value_Type val = targetType then val
      else (case targetType of
              TypeInteger \<Rightarrow> IntegerValue (ucast (ToInt X val))
            | TypeLong \<Rightarrow> LongValue (ucast (ToInt X val))
            | TypeSingle \<Rightarrow> SingleValue (Float32 X (ToFloat X val))
            | TypeDouble \<Rightarrow> DoubleValue (ToFloat X val)
            | TypeString \<Rightarrow> StringValue (ToString X val)
            | TypeUnknown \<Rightarrow> val))"



definition IsNumeric :: "Value \<Rightarrow> bool" where
  "IsNumeric v =
     (case Value_Type v of
        TypeInteger \<Rightarrow> True | TypeLong \<Rightarrow> True | TypeSingle \<Rightarrow> True | TypeDouble \<Rightarrow> True
      | _ \<Rightarrow> False)"

definition boolToValue :: "bool \<Rightarrow> Value" where
  "boolToValue b = (if b then IntegerValue (- 1) else IntegerValue 0)"

subsection \<open>Arrays\<close>

definition NewArray :: "DataType \<Rightarrow> ArrayDimension list \<Rightarrow> error + Array" where
  "NewArray dt dims =
     (let size = foldl (\<lambda>sz d. sz * (Upper d - Lower d + 1)) 1 dims in
      if size < 0 then Inl (RuntimePanic ''makeslice: len out of range'')
      else Inr \<lparr>DataType = dt, Dimensions = dims,
                Data = replicate (nat size) (DefaultValue dt)\<rparr>)"

text \<open>The loop of \<^verbatim>\<open>GetIndex\<close> runs from the last dimension to the first; here it
  walks the reversed lists.\<close>

fun GetIndex_loop :: "ArrayDimension list \<Rightarrow> int list \<Rightarrow> int \<Rightarrow> int \<Rightarrow> error + int" where
  "GetIndex_loop (d # dims) (sub # subs) index multiplier =
     (if sub < Lower d \<or> sub > Upper d
      then Inl (Errorf (''subscript out of range: '' @ itoa sub @ '' not in ['' @
                        itoa (Lower d) @ '', '' @ itoa (Upper d) @ '']''))
      else GetIndex_loop dims subs (index + (sub - Lower d) * multiplier)
             (multiplier * (Upper d - Lower d + 1)))"
| "GetIndex_loop _ _ index multiplier = Inr index"

definition GetIndex :: "Array \<Rightarrow> int list \<Rightarrow> error + int" where
  "GetIndex a subscripts =
     (if length subscripts \<noteq> length (Dimensions a)
      then Inl (Errorf (''wrong number of dimensions: expected '' @
                        itoa (int (length (Dimensions a))) @ '', got '' @
                        itoa (int (length subscripts))))
      else GetIndex_loop (rev (Dimensions a)) (rev subscripts) 0 1)"

definition Array_Get :: "Array \<Rightarrow> int list \<Rightarrow> error + Value" where
  "Array_Get a subscripts =
     (case GetIndex a subscripts of
        Inl err \<Rightarrow> Inl err
      | Inr index \<Rightarrow>
          if 0 \<le> index \<and> index < int (length (Data a)) then Inr (Data a ! nat index)
          else Inl (RuntimePanic ''index out of range''))"

definition Array_Set :: "Array \<Rightarrow> int list \<Rightarrow> Value \<Rightarrow> error + Array" where
  "Array_Set a subscripts val =
     (case GetIndex a subscripts of
        Inl err \<Rightarrow> Inl err
      | Inr index \<Rightarrow>
          if 0 \<le> index \<and> index < int (length (Data a))
          then Inr (a\<lparr>Data := (Data a)[nat index := val]\<rparr>)
          else Inl (RuntimePanic ''index out of range''))"

subsection \<open>Environments\<close>

fun Environment_Get :: "Externals \<Rightarrow> Environment \<Rightarrow> string \<Rightarrow> Value option" where
  "Environment_Get X (Environment vs as cs p) name =
     (case cs (ToUpper X name) of
        Some val \<Rightarrow> Some val
      | None \<Rightarrow>
          (case vs (ToUpper X name) of
             Some val \<Rightarrow> Some val
           | None \<Rightarrow> (case p of Some e \<Rightarrow> Environment_Get X e (ToUpper X name) | None \<Rightarrow> None)))"

fun Environment_Set :: "Externals \<Rightarrow> Environment \<Rightarrow> string \<Rightarrow> Value \<Rightarrow> Environment" where
  "Environment_Set X (Environment vs as cs p) name val =
     (case cs (ToUpper X name) of
        Some c \<Rightarrow> Environment vs as cs p
      | None \<Rightarrow> Environment (vs(ToUpper X name \<mapsto> val)) as cs p)"

definition inferType :: "string \<Rightarrow> DataType" where
  "inferType name =
     (if name = [] then TypeSingle
      else if [last name] = ''%'' then TypeInteger
      else if [last name] = ''&'' then TypeLong
      else if [last name] = ''!'' then TypeSingle
      else if [last name] = ''#'' then TypeDouble
      else if [last name] = ''$'' then TypeString
      else TypeSingle)"

definition GetOrCreate :: "Externals \<Rightarrow> Environment \<Rightarrow> string \<Rightarrow> DataType \<Rightarrow> Value \<times> Environment" where
  "GetOrCreate X e name dt =
     (case Environment_Get X e (ToUpper X name) of
        Some val \<Rightarrow> (val, e)
      | None \<Rightarrow>
          (let dt' = (if dt = TypeUnknown then inferType (ToUpper X name) else dt);
               val = DefaultValue dt'
           in (val, Environment_Set X e (ToUpper X name) val)))"

fun GetArray :: "Externals \<Rightarrow> Environment \<Rightarrow> string \<Rightarrow> nat option" where
  "GetArray X (Environment vs as cs p) name =
     (case as (ToUpper X name) of
        Some arr \<Rightarrow> Some arr
      | None \<Rightarrow> (case p of Some e \<Rightarrow> GetArray X e (ToUpper X name) | None \<Rightarrow> None))"

definition NewEnvironment :: Environment where
  "NewEnvironment = Environment Map.empty Map.empty Map.empty None"

definition NewEnclosedEnvironment :: "Environment \<Rightarrow> Environment" where
  "NewEnclosedEnvironment outer = Environment Map.empty Map.empty Map.empty (Some outer)"

definition DefineConst :: "Externals \<Rightarrow> Environment \<Rightarrow> string \<Rightarrow> Value \<Rightarrow> error + Environment" where
  "DefineConst X e name val =
     (case constants e (ToUpper X name) of
        Some c \<Rightarrow> Inl (Errorf (''constant '' @ ToUpper X name @ '' already defined''))
      | None \<Rightarrow>
          Inr (Environment (variables e) (arrays e) ((constants e)(ToUpper X name \<mapsto> val))
                 (parent e)))"


definition SetArray :: "Externals \<Rightarrow> Environment \<Rightarrow> string \<Rightarrow> nat \<Rightarrow> Environment" where
  "SetArray X e name arr =
     Environment (variables e) ((arrays e)(ToUpper X name \<mapsto> arr)) (constants e) (parent e)"

text \<open>\<^verbatim>\<open>DeclareArray\<close> builds the array with bounds \<open>0 .. d\<close>, allocates it and binds the
  name to it in the scope it is called on.\<close>

definition DeclareArray ::
  "Externals \<Rightarrow> Interpreter \<Rightarrow> string \<Rightarrow> DataType \<Rightarrow> int list \<Rightarrow> error option \<times> Interpreter" where
  "DeclareArray X i name dt dims =
     (case NewArray dt (map (\<lambda>d. \<lparr>Lower = 0, Upper = d\<rparr>) dims) of
        Inl err \<Rightarrow> (Some err, i)
      | Inr arr \<Rightarrow>
          (None, i\<lparr>env := SetArray X (env i) name (nextAddr i),
                   store := (store i)(nextAddr i \<mapsto> arr),
                   nextAddr := Suc (nextAddr i)\<rparr>))"

text \<open>Calling \<^verbatim>\<open>Get\<close> and \<^verbatim>\<open>Set\<close> through an array pointer. (An address without
  an object does not arise: objects are never freed.)\<close>

definition Array_Get_at :: "Interpreter \<Rightarrow> nat \<Rightarrow> int list \<Rightarrow> error + Value" where
  "Array_Get_at i a subscripts =
     (case store i a of
        None \<Rightarrow> Inl (RuntimePanic ''nil pointer dereference'')
      | Some arr \<Rightarrow> Array_Get arr subscripts)"

definition Array_Set_at ::
  "Interpreter \<Rightarrow> nat \<Rightarrow> int list \<Rightarrow> Value \<Rightarrow> error option \<times> Interpreter" where
  "Array_Set_at i a subscripts val =
     (case store i a of
        None \<Rightarrow> (Some (RuntimePanic ''nil pointer dereference''), i)
      | Some arr \<Rightarrow>
          (case Array_Set arr subscripts val of
             Inl err \<Rightarrow> (Some err, i)
           | Inr arr' \<Rightarrow> (None, i\<lparr>store := (store i)(a \<mapsto> arr')\<rparr>)))"

section \<open>The expression evaluator\<close>

text \<open>\<^verbatim>\<open>pow\<close>: three shortcuts, then square-and-multiply on the truncated exponent
  \<^verbatim>\<open>int(exp)\<close>; an exponent beyond the \<^verbatim>\<open>int\<close> range is outside the model.\<close>

function pow_loop :: "Externals \<Rightarrow> float64 \<Rightarrow> float64 \<Rightarrow> float64 \<Rightarrow> float64" where
  "pow_loop X result base ex =
     (if ex > 0
      then pow_loop X
             (if truncate_float ex smod 2 = 1 then Round64 X (result * base) else result)
             (Round64 X (base * base))
             (real_of_int (truncate_float ex sdiv 2))
      else result)"
  by pat_completeness auto
termination
proof (relation "measure (\<lambda>(X, result, base, ex). nat \<lceil>ex\<rceil>)")
  show "wf (measure (\<lambda>(X, result, base, ex). nat \<lceil>ex\<rceil>))"
    by simp
next
  fix X :: Externals and result base ex :: real
  assume pos: "0 < ex"
  have fl: "0 \<le> \<lfloor>ex\<rfloor>"
    using pos by simp
  have "\<lfloor>ex\<rfloor> sdiv 2 = \<lfloor>ex\<rfloor> div 2"
    using fl by (simp add: signed_divide_int_def sgn_if)
  moreover have "\<lfloor>ex\<rfloor> div 2 < \<lceil>ex\<rceil>"
  proof (cases "\<lfloor>ex\<rfloor> = 0")
    case True
    then show ?thesis using pos by simp
  next
    case False
    then have "\<lfloor>ex\<rfloor> div 2 < \<lfloor>ex\<rfloor>"
      using fl by linarith
    also have "\<lfloor>ex\<rfloor> \<le> \<lceil>ex\<rceil>"
      by (rule floor_le_ceiling)
    finally show ?thesis .
  qed
  ultimately show
    "((X, if truncate_float ex smod 2 = 1 then Round64 X (result * base) else result,
       Round64 X (base * base), real_of_int (truncate_float ex sdiv 2)),
      (X, result, base, ex))
     \<in> measure (\<lambda>(X, result, base, ex). nat \<lceil>ex\<rceil>)"
    using pos by (simp add: truncate_float_def)
qed

declare pow_loop.simps [simp del]

definition pow :: "Externals \<Rightarrow> float64 \<Rightarrow> float64 \<Rightarrow> float64" where
  "pow X base ex =
     (if ex = 0 then 1
      else if ex = 1 then base
      else if ex = 2 then Round64 X (base * base)
      else pow_loop X 1 base ex)"

text \<open>The part of \<^verbatim>\<open>evaluateBinaryExpr\<close> that follows the evaluation of the two
  operands. The operator is the source's string; integer division is written with a
  backslash, the character \<open>0x5C\<close>.\<close>

definition long_of_int64 :: "int64 \<Rightarrow> Value" where
  "long_of_int64 w = LongValue (ucast w)"

definition evaluateBinaryExpr_strings :: "string \<Rightarrow> string \<Rightarrow> string \<Rightarrow> error + Value" where
  "evaluateBinaryExpr_strings ls op rs =
     (if op = ''='' then Inr (boolToValue (ls = rs))
      else if op = ''<>'' then Inr (boolToValue (ls \<noteq> rs))
      else if op = ''<'' then Inr (boolToValue (ls < rs))
      else if op = ''>'' then Inr (boolToValue (ls > rs))
      else if op = ''<='' then Inr (boolToValue (ls \<le> rs))
      else if op = ''>='' then Inr (boolToValue (ls \<ge> rs))
      else Inl (Errorf (''invalid operator '' @ op @ '' for strings'')))"

definition evaluateBinaryExpr_numeric ::
  "Externals \<Rightarrow> float64 \<Rightarrow> string \<Rightarrow> float64 \<Rightarrow> error + Value" where
  "evaluateBinaryExpr_numeric X lf op rf =
     (if op = ''+'' then Inr (DoubleValue (Round64 X (lf + rf)))
      else if op = ''-'' then Inr (DoubleValue (Round64 X (lf - rf)))
      else if op = ''*'' then Inr (DoubleValue (Round64 X (lf * rf)))
      else if op = ''/'' then
        (if rf = 0 then Inl (Errorf ''division by zero'')
         else Inr (DoubleValue (Round64 X (lf / rf))))
      else if op = [CHR 0x5C] then
        (if rf = 0 then Inl (Errorf ''division by zero'')
         else if int64_of_float X rf = 0 then Inl (RuntimePanic ''integer divide by zero'')
         else Inr (long_of_int64 (int64_quo (int64_of_float X lf) (int64_of_float X rf))))
      else if op = ''^'' then Inr (DoubleValue (pow X lf rf))
      else if op = ''MOD'' then
        (if rf = 0 then Inl (Errorf ''division by zero'')
         else if int64_of_float X rf = 0 then Inl (RuntimePanic ''integer divide by zero'')
         else Inr (long_of_int64 (int64_rem (int64_of_float X lf) (int64_of_float X rf))))
      else if op = ''='' then Inr (boolToValue (lf = rf))
      else if op = ''<>'' then Inr (boolToValue (lf \<noteq> rf))
      else if op = ''<'' then Inr (boolToValue (lf < rf))
      else if op = ''>'' then Inr (boolToValue (lf > rf))
      else if op = ''<='' then Inr (boolToValue (lf \<le> rf))
      else if op = ''>='' then Inr (boolToValue (lf \<ge> rf))
      else if op = ''AND'' then
        Inr (long_of_int64 (int64_of_float X lf AND int64_of_float X rf))
      else if op = ''OR'' then
        Inr (long_of_int64 (int64_of_float X lf OR int64_of_float X rf))
      else if op = ''XOR'' then
        Inr (long_of_int64 (int64_of_float X lf XOR int64_of_float X rf))
      else if op = ''EQV'' then
        Inr (long_of_int64 (NOT (int64_of_float X lf XOR int64_of_float X rf)))
      else if op = ''IMP'' then
        Inr (long_of_int64 (NOT (int64_of_float X lf) OR int64_of_float X rf))
      else Inl (Errorf (''unknown operator: '' @ op)))"

definition evaluateBinaryExpr_values ::
  "Externals \<Rightarrow> Value \<Rightarrow> string \<Rightarrow> Value \<Rightarrow> error + Value" where
  "evaluateBinaryExpr_values X left op right =
     (if op = ''+'' \<and> (Value_Type left = TypeString \<or> Value_Type right = TypeString)
      then Inr (StringValue (ToString X left @ ToString X right))
      else
        (case (left, right) of
           (StringValue ls, StringValue rs) \<Rightarrow> evaluateBinaryExpr_strings ls op rs
         | _ \<Rightarrow> evaluateBinaryExpr_numeric X (ToFloat X left) op (ToFloat X right)))"

definition evaluateUnaryExpr_value :: "Externals \<Rightarrow> string \<Rightarrow> Value \<Rightarrow> error + Value" where
  "evaluateUnaryExpr_value X op right =
     (if op = ''-'' then Inr (DoubleValue (- ToFloat X right))
      else if op = ''NOT'' then Inr (long_of_int64 (NOT (ToInt X right)))
      else Inl (Errorf (''unknown unary operator: '' @ op)))"

text \<open>The names under which \<^verbatim>\<open>registerAll\<close> enters a function into the registry, and
  \<^verbatim>\<open>Registry.Call\<close>: a name that is not among them is an error.\<close>

definition registered_function :: "string \<Rightarrow> bool" where
  "registered_function name =
     (name \<in> set [''LEN'', ''LEFT$'', ''RIGHT$'', ''MID$'', ''INSTR'', ''UCASE$'', ''LCASE$'',
        ''STR$'', ''VAL'', ''CHR$'', ''ASC'', ''STRING$'', ''SPACE$'', ''LTRIM$'', ''RTRIM$'',
        ''TRIM$'', ''ABS'', ''SGN'', ''INT'', ''FIX'', ''SQR'', ''SIN'', ''COS'', ''TAN'', ''ATN'',
        ''LOG'', ''EXP'', ''RND'', ''TIMER'', ''DATE$'', ''TIME$'', ''CINT'', ''CLNG'', ''CSNG'',
        ''CDBL'', ''HEX$'', ''OCT$'', ''TAB'', ''SPC'', ''ATAN2'', ''ATN2'', ''ROUND'', ''_PI'',
        ''PI''])"

definition builtins_Call ::
  "Externals \<Rightarrow> Interpreter \<Rightarrow> string \<Rightarrow> Value list \<Rightarrow> (error + Value) \<times> Interpreter" where
  "builtins_Call X i name args =
     (if registered_function name then RegisteredCall X i name args
      else (Inl (Errorf (''unknown function: '' @ name)), i))"

text \<open>The identifiers that \<^verbatim>\<open>evaluate\<close> hands to the registry with no argument, and the
  identifiers that it does not read as variables.\<close>

definition builtin_identifier :: "string \<Rightarrow> bool" where
  "builtin_identifier name =
     (name = ''RND'' \<or> name = ''TIMER'' \<or> name = ''DATE$'' \<or> name = ''TIME$'' \<or>
      name = ''INKEY$'' \<or> name = ''_PI'' \<or> name = ''PI'')"


fun evaluate :: "Externals \<Rightarrow> Interpreter \<Rightarrow> Expression \<Rightarrow> (error + Value) \<times> Interpreter"
and evaluateSubscripts ::
  "Externals \<Rightarrow> Interpreter \<Rightarrow> Expression list \<Rightarrow> (error + int list) \<times> Interpreter"
where
  "evaluate X i (IntegerLiteral v) = (Inr (LongValue (ucast v)), i)"
| "evaluate X i (FloatLiteral v) = (Inr (DoubleValue v), i)"
| "evaluate X i (StringLiteral v) = (Inr (StringValue v), i)"
| "evaluate X i (Identifier name hint) =
     (if builtin_identifier (ToUpper X name) then builtins_Call X i (ToUpper X name) []
      else if ToUpper X name = ''FREEFILE''
      then (Inr (IntegerValue (word_of_int (GetNextFreeFile X i))), i)
      else (case Environment_Get X (env i) name of
              Some val \<Rightarrow> (Inr val, i)
            | None \<Rightarrow>
                (case GetOrCreate X (env i) name hint of
                   (val, e') \<Rightarrow> (Inr val, i\<lparr>env := e'\<rparr>))))"
| "evaluate X i (ArrayAccess name indices) =
     (case GetArray X (env i) name of
        None \<Rightarrow> (Inl (Errorf (''array '' @ name @ '' not defined'')), i)
      | Some arr \<Rightarrow>
          (case evaluateSubscripts X i indices of
             (Inl err, i') \<Rightarrow> (Inl err, i')
           | (Inr subscripts, i') \<Rightarrow> (Array_Get_at i' arr subscripts, i')))"
| "evaluate X i (BinaryExpr l op r) =
     (case evaluate X i l of
        (Inl err, i1) \<Rightarrow> (Inl err, i1)
      | (Inr left, i1) \<Rightarrow>
          (case evaluate X i1 r of
             (Inl err, i2) \<Rightarrow> (Inl err, i2)
           | (Inr right, i2) \<Rightarrow> (evaluateBinaryExpr_values X left op right, i2)))"
| "evaluate X i (UnaryExpr op r) =
     (case evaluate X i r of
        (Inl err, i1) \<Rightarrow> (Inl err, i1)
      | (Inr right, i1) \<Rightarrow> (evaluateUnaryExpr_value X op right, i1))"
| "evaluate X i (CallExpr fname arguments) =
     (case GetArray X (env i) (ToUpper X fname) of
        Some arr \<Rightarrow>
          (case evaluateSubscripts X i arguments of
             (Inl err, i') \<Rightarrow> (Inl err, i')
           | (Inr subscripts, i') \<Rightarrow> (Array_Get_at i' arr subscripts, i'))
      | None \<Rightarrow> CallNonArray X i (ToUpper X fname) arguments)"
| "evaluate X i (GroupedExpr e) = evaluate X i e"
| "evaluate X i (OtherExpr tn) = (Inl (Errorf (''unknown expression type: '' @ tn)), i)"
| "evaluateSubscripts X i [] = (Inr [], i)"
| "evaluateSubscripts X i (e # es) =
     (case evaluate X i e of
        (Inl err, i1) \<Rightarrow> (Inl err, i1)
      | (Inr val, i1) \<Rightarrow>
          (case evaluateSubscripts X i1 es of
             (Inl err, i2) \<Rightarrow> (Inl err, i2)
           | (Inr subs, i2) \<Rightarrow> (Inr (sint (ToInt X val) # subs), i2)))"


section \<open>Statements\<close>

subsection \<open>LET\<close>

text \<open>What \<^verbatim>\<open>%T\<close> prints for an expression node.\<close>

fun type_name :: "Expression \<Rightarrow> string" where
  "type_name (IntegerLiteral v) = ''*ast.IntegerLiteral''"
| "type_name (FloatLiteral v) = ''*ast.FloatLiteral''"
| "type_name (StringLiteral v) = ''*ast.StringLiteral''"
| "type_name (Identifier name hint) = ''*ast.Identifier''"
| "type_name (ArrayAccess name indices) = ''*ast.ArrayAccess''"
| "type_name (BinaryExpr l op r) = ''*ast.BinaryExpr''"
| "type_name (UnaryExpr op r) = ''*ast.UnaryExpr''"
| "type_name (CallExpr fname arguments) = ''*ast.CallExpr''"
| "type_name (GroupedExpr e) = ''*ast.GroupedExpr''"
| "type_name (OtherExpr tn) = tn"

definition set_env :: "Interpreter \<Rightarrow> Environment \<Rightarrow> Interpreter" where
  "set_env i e = i\<lparr>env := e\<rparr>"

definition executeLetStatement ::
  "Externals \<Rightarrow> Interpreter \<Rightarrow> Expression \<Rightarrow> Expression \<Rightarrow> error option \<times> Interpreter" where
  "executeLetStatement X i target rhs =
     (case evaluate X i rhs of
        (Inl err, i1) \<Rightarrow> (Some err, i1)
      | (Inr val, i1) \<Rightarrow>
          (case target of
             Identifier name hint \<Rightarrow>
               (case GetArray X (env i1) name of
                  Some arr \<Rightarrow> (Some (Errorf (''array '' @ name @ '' requires subscripts'')), i1)
                | None \<Rightarrow> (None, set_env i1 (Environment_Set X (env i1) name val)))
           | ArrayAccess name indices \<Rightarrow>
               (case GetArray X (env i1) name of
                  None \<Rightarrow> (Some (Errorf (''array '' @ name @ '' not defined'')), i1)
                | Some arr \<Rightarrow>
                    (case evaluateSubscripts X i1 indices of
                       (Inl err, i2) \<Rightarrow> (Some err, i2)
                     | (Inr subscripts, i2) \<Rightarrow> Array_Set_at i2 arr subscripts val))
           | CallExpr fname arguments \<Rightarrow>
               (case GetArray X (env i1) fname of
                  Some arr \<Rightarrow>
                    (case evaluateSubscripts X i1 arguments of
                       (Inl err, i2) \<Rightarrow> (Some err, i2)
                     | (Inr subscripts, i2) \<Rightarrow> Array_Set_at i2 arr subscripts val)
                | None \<Rightarrow> (Some (Errorf ''cannot assign to function call''), i1))
           | _ \<Rightarrow> (Some (Errorf (''invalid assignment target: '' @ type_name target)), i1)))"

subsection \<open>DIM\<close>

text \<open>The bounds of one declared array are evaluated left to right; each is
  \<^verbatim>\<open>int(dimVal.ToInt())\<close>, as a subscript is.\<close>

definition executeDimVariable ::
  "Externals \<Rightarrow> Interpreter \<Rightarrow> DimVariable \<Rightarrow> error option \<times> Interpreter" where
  "executeDimVariable X i v =
     (if length (VarDimensions v) > 0 then
        (case evaluateSubscripts X i (VarDimensions v) of
           (Inl err, i1) \<Rightarrow> (Some err, i1)
         | (Inr dims, i1) \<Rightarrow>
             DeclareArray X i1 (VarName v)
               (if VarDataType v = TypeUnknown then inferType (VarName v) else VarDataType v)
               dims)
      else
        (None, set_env i
           (Environment_Set X (env i) (VarName v)
              (DefaultValue
                 (if VarDataType v = TypeUnknown then inferType (VarName v)
                  else VarDataType v)))))"

fun executeDimStatement ::
  "Externals \<Rightarrow> Interpreter \<Rightarrow> DimVariable list \<Rightarrow> error option \<times> Interpreter" where
  "executeDimStatement X i [] = (None, i)"
| "executeDimStatement X i (v # vs) =
     (case executeDimVariable X i v of
        (Some err, i1) \<Rightarrow> (Some err, i1)
      | (None, i1) \<Rightarrow> executeDimStatement X i1 vs)"

subsection \<open>CONST\<close>

definition executeConstStatement ::
  "Externals \<Rightarrow> Interpreter \<Rightarrow> string \<Rightarrow> Expression \<Rightarrow> error option \<times> Interpreter" where
  "executeConstStatement X i name rhs =
     (case evaluate X i rhs of
        (Inl err, i1) \<Rightarrow> (Some err, i1)
      | (Inr val, i1) \<Rightarrow>
          (case DefineConst X (env i1) name val of
             Inl err \<Rightarrow> (Some err, i1)
           | Inr e' \<Rightarrow> (None, set_env i1 e')))"

subsection \<open>PRINT\<close>
















subsection \<open>RESTORE\<close>

text \<open>The counting loop of \<^verbatim>\<open>executeRestoreStatement\<close> over the statements before the
  target.\<close>

fun count_data :: "Statement list \<Rightarrow> int" where
  "count_data [] = 0"
| "count_data (DataStmt vals # stmts) = int (length vals) + count_data stmts"
| "count_data (_ # stmts) = count_data stmts"

text \<open>The DATA items one statement contributes.\<close>

fun data_values :: "Statement \<Rightarrow> Expression list" where
  "data_values (DataStmt vals) = vals"
| "data_values _ = []"

definition set_DataPointer :: "Interpreter \<Rightarrow> int \<Rightarrow> Interpreter" where
  "set_DataPointer i n = i\<lparr>state := (state i)\<lparr>DataPointer := n\<rparr>\<rparr>"

definition executeRestoreStatement ::
  "Externals \<Rightarrow> Interpreter \<Rightarrow> string \<Rightarrow> error option \<times> Interpreter" where
  "executeRestoreStatement X i target =
     (if target = [] then (None, set_DataPointer i 0)
      else
        (case parseLineNumber (ToUpper X target) of
           None \<Rightarrow> (Some (Errorf (''undefined label or line number: '' @ target)), i)
         | Some lineNum \<Rightarrow>
             (case LineNumbers (program i) lineNum of
                None \<Rightarrow> (Some (Errorf (''undefined label or line number: '' @ target)), i)
              | Some idx \<Rightarrow>
                  if idx > int (length (Statements (program i)))
                  then (Some (RuntimePanic ''index out of range''), i)
                  else (None, set_DataPointer i
                                (count_data (take (nat idx) (Statements (program i))))))))"

text \<open>\<^verbatim>\<open>executeGotoStatement\<close>, the sibling that resolves a target: a line number
  first, then a label.\<close>

definition set_ProgramCounter :: "Interpreter \<Rightarrow> int \<Rightarrow> Interpreter" where
  "set_ProgramCounter i n = i\<lparr>state := (state i)\<lparr>ProgramCounter := n\<rparr>\<rparr>"

definition goto_label :: "Externals \<Rightarrow> Interpreter \<Rightarrow> string \<Rightarrow> error option \<times> Interpreter" where
  "goto_label X i target =
     (case Labels (program i) (ToUpper X target) of
        Some idx \<Rightarrow> (None, set_ProgramCounter i (idx - 1))
      | None \<Rightarrow> (Some (Errorf (''undefined label or line number: '' @ target)), i))"

definition executeGotoStatement :: "Externals \<Rightarrow> Interpreter \<Rightarrow> string \<Rightarrow> error option \<times> Interpreter" where
  "executeGotoStatement X i target =
     (case parseLineNumber (ToUpper X target) of
        None \<Rightarrow> goto_label X i target
      | Some lineNum \<Rightarrow>
          (case LineNumbers (program i) lineNum of
             Some idx \<Rightarrow> (None, set_ProgramCounter i (idx - 1))
           | None \<Rightarrow> goto_label X i target))"

section \<open>Built-in conversions\<close>

text \<open>The registry's functions take and return values of the package's own value
  types, which mirror the interpreter's field for field (\<^verbatim>\<open>valueToBuiltin\<close> and
  \<^verbatim>\<open>builtinToValue\<close> copy the payload); the same datatype serves for both.\<close>

definition fnCInt :: "Externals \<Rightarrow> Value list \<Rightarrow> error + Value" where
  "fnCInt X args =
     (if length args < 1 then Inl (Errorf ''CINT requires 1 argument'')
      else Inr (IntegerValue (int16_of_float X (RoundToEven (ToFloat X (args ! 0))))))"

definition fnCLng :: "Externals \<Rightarrow> Value list \<Rightarrow> error + Value" where
  "fnCLng X args =
     (if length args < 1 then Inl (Errorf ''CLNG requires 1 argument'')
      else Inr (LongValue (int32_of_float X (RoundToEven (ToFloat X (args ! 0))))))"

definition fnCSng :: "Externals \<Rightarrow> Value list \<Rightarrow> error + Value" where
  "fnCSng X args =
     (if length args < 1 then Inl (Errorf ''CSNG requires 1 argument'')
      else Inr (SingleValue (Float32 X (ToFloat X (args ! 0)))))"

definition fnCDbl :: "Externals \<Rightarrow> Value list \<Rightarrow> error + Value" where
  "fnCDbl X args =
     (if length args < 1 then Inl (Errorf ''CDBL requires 1 argument'')
      else Inr (DoubleValue (ToFloat X (args ! 0))))"






section \<open>A fresh interpreter and concrete inputs\<close>

definition NewExecutionState :: ExecutionState where
  "NewExecutionState = \<lparr>ProgramCounter = 0, DataPointer = 0, Running = False\<rparr>"

definition New :: "Program \<Rightarrow> Interpreter" where
  "New prog =
     \<lparr>program = prog, env = NewEnvironment, state = NewExecutionState,
      store = Map.empty, nextAddr = 0, printed = [], outside = 0\<rparr>"

text \<open>A host for the concrete runs below. The names in them are ASCII, where \<open>ToUpper\<close>
  is the ASCII function, and they parse no text as a number (both parsers answer 0).
  \<open>FormatFloatG\<close> and \<open>%g\<close> write the sign and stand \<open>?\<close> for the digits; a real is taken
  for its own rounding; a 32-bit or 64-bit conversion out of range gives the most negative
  value and a 16-bit one the low half of the 32-bit result; every registered built-in and
  every call of a routine fails; no file is open.\<close>

definition sign_only :: "float64 \<Rightarrow> string" where
  "sign_only f = (if f < 0 then ''-?'' else ''?'')"

definition bareHost :: Externals where
  "bareHost =
     \<lparr>ToUpper = ascii_ToUpper, ParseFloat = (\<lambda>s. 0), ParseInt = (\<lambda>s. 0),
      FormatFloatG = sign_only, Sprintf_g32 = sign_only, Sprintf_g64 = sign_only,
      Round64 = (\<lambda>x. x), Float32 = (\<lambda>x. x),
      Int16OutOfRange =
        (\<lambda>f. if - 2147483648 \<le> truncate_float f \<and> truncate_float f \<le> 2147483647
             then word_of_int (truncate_float f) else 0),
      Int32OutOfRange = (\<lambda>f. - 2147483648),
      Int64OutOfRange = (\<lambda>f. - 9223372036854775808),
      RegisteredCall = (\<lambda>i name args. (Inl (Errorf ''illegal function call''), i)),
      GetNextFreeFile = (\<lambda>i. 1),
      CallNonArray = (\<lambda>i name args. (Inl (Errorf (''unknown function: '' @ name)), i))\<rparr>"

text \<open>A scope in which \<open>N\<close> is a constant with the value 5.\<close>

definition constEnv :: Environment where
  "constEnv = Environment Map.empty Map.empty [''N'' \<mapsto> LongValue 5] None"

text \<open>The state after \<open>DIM A%(2)\<close> in a fresh interpreter, and a program with a
  label between its DATA statements.\<close>

definition dimProgramState :: Interpreter where
  "dimProgramState =
     snd (executeDimStatement bareHost (New NewProgram)
            [\<lparr>VarName = ''A%'', VarDimensions = [IntegerLiteral 2], VarDataType = TypeUnknown\<rparr>])"

definition labelledData :: "Statement list" where
  "labelledData =
     [DataStmt [IntegerLiteral 1, IntegerLiteral 2], LabelStmt ''more'',
      DataStmt [IntegerLiteral 3], RestoreStmt ''more'']"

section \<open>Properties of the binary operators\<close>

lemma evaluate_BinaryExpr_values:
  "evaluate X i l = (Inr a, i1) \<Longrightarrow> evaluate X i1 r = (Inr b, i2) \<Longrightarrow>
   evaluate X i (BinaryExpr l op r) = (evaluateBinaryExpr_values X a op b, i2)"
  by simp

lemma values_numeric:
  "IsNumeric a \<Longrightarrow> IsNumeric b \<Longrightarrow>
   evaluateBinaryExpr_values X a op b =
   evaluateBinaryExpr_numeric X (ToFloat X a) op (ToFloat X b)"
  by (cases a; cases b) (simp_all add: IsNumeric_def evaluateBinaryExpr_values_def)

lemma numeric_slash:
  "evaluateBinaryExpr_numeric X lf ''/'' rf =
   (if rf = 0 then Inl (Errorf ''division by zero'') else Inr (DoubleValue (Round64 X (lf / rf))))"
  by (simp add: evaluateBinaryExpr_numeric_def)

lemma numeric_backslash:
  "evaluateBinaryExpr_numeric X lf [CHR 0x5C] rf =
   (if rf = 0 then Inl (Errorf ''division by zero'')
    else if int64_of_float X rf = 0 then Inl (RuntimePanic ''integer divide by zero'')
    else Inr (long_of_int64 (int64_quo (int64_of_float X lf) (int64_of_float X rf))))"
  by (simp add: evaluateBinaryExpr_numeric_def)

lemma numeric_MOD:
  "evaluateBinaryExpr_numeric X lf ''MOD'' rf =
   (if rf = 0 then Inl (Errorf ''division by zero'')
    else if int64_of_float X rf = 0 then Inl (RuntimePanic ''integer divide by zero'')
    else Inr (long_of_int64 (int64_rem (int64_of_float X lf) (int64_of_float X rf))))"
  by (simp add: evaluateBinaryExpr_numeric_def)

lemma int64_of_small: "\<bar>f\<bar> < 1 \<Longrightarrow> int64_of_float X f = 0"
proof -
  assume a: "\<bar>f\<bar> < 1"
  have "truncate_float f = 0"
  proof (cases "0 \<le> f")
    case True
    then have "\<lfloor>f\<rfloor> = 0" using a by (simp add: floor_eq_iff)
    then show ?thesis using True by (simp add: truncate_float_def)
  next
    case False
    then have "\<lceil>f\<rceil> = 0" using a by (simp add: ceiling_eq_iff)
    then show ?thesis using False by (simp add: truncate_float_def)
  qed
  then show ?thesis by (simp add: int64_of_float_def)
qed

text \<open>
  Claim C3. For numeric operands \<open>a\<close> and \<open>b\<close>: when \<open>b\<close> evaluates to zero, each of
  \<open>a / b\<close>, the integer division of \<open>a\<close> by \<open>b\<close> and \<open>a MOD b\<close> fails with the error "division by zero" and yields
  no value; when \<open>b\<close> is not zero, \<open>a / b\<close> succeeds with the quotient (as a Double).
\<close>

theorem division_by_zero_fails:
  assumes "evaluate X i l = (Inr a, i1)" and "evaluate X i1 r = (Inr b, i2)"
    and "IsNumeric a" and "IsNumeric b"
  shows "(ToFloat X b = 0 \<longrightarrow>
            evaluate X i (BinaryExpr l ''/'' r) = (Inl (Errorf ''division by zero''), i2) \<and>
            evaluate X i (BinaryExpr l [CHR 0x5C] r) = (Inl (Errorf ''division by zero''), i2) \<and>
            evaluate X i (BinaryExpr l ''MOD'' r) = (Inl (Errorf ''division by zero''), i2)) \<and>
         (ToFloat X b \<noteq> 0 \<longrightarrow>
            evaluate X i (BinaryExpr l ''/'' r) =
              (Inr (DoubleValue (Round64 X (ToFloat X a / ToFloat X b))), i2))"
  unfolding evaluate_BinaryExpr_values [OF assms(1,2)] values_numeric [OF assms(3,4)]
    numeric_slash numeric_backslash numeric_MOD
  by simp

theorem division_by_zero_fails_witness:
  "evaluate bareHost (New NewProgram) (BinaryExpr (IntegerLiteral 7) ''/'' (IntegerLiteral 0)) =
     (Inl (Errorf ''division by zero''), New NewProgram) \<and>
   evaluate bareHost (New NewProgram) (BinaryExpr (IntegerLiteral 7) ''MOD'' (IntegerLiteral 0)) =
     (Inl (Errorf ''division by zero''), New NewProgram) \<and>
   evaluate bareHost (New NewProgram) (BinaryExpr (IntegerLiteral 7) ''/'' (IntegerLiteral 2)) =
     (Inr (DoubleValue (7 / 2)), New NewProgram)"
proof -
  have l: "evaluate bareHost (New NewProgram) (IntegerLiteral 7) = (Inr (LongValue 7), New NewProgram)"
    by simp
  have z: "evaluate bareHost (New NewProgram) (IntegerLiteral 0) = (Inr (LongValue 0), New NewProgram)"
    by simp
  have t: "evaluate bareHost (New NewProgram) (IntegerLiteral 2) = (Inr (LongValue 2), New NewProgram)"
    by simp
  have n: "IsNumeric (LongValue 7)" "IsNumeric (LongValue 0)" "IsNumeric (LongValue 2)"
    by (simp_all add: IsNumeric_def)
  show ?thesis
    using division_by_zero_fails [OF l z n(1) n(2)] division_by_zero_fails [OF l t n(1) n(3)]
    by (simp add: bareHost_def)
qed

text \<open>
  Claim C8. The guard of integer division and of \<open>MOD\<close> tests the divisor's float value, the
  operation divides the operands truncated to \<^verbatim>\<open>int64\<close>: for every divisor \<open>b\<close> with
  \<open>0 < \<bar>b\<bar> < 1\<close> the guard passes, the truncated divisor is zero, and the evaluation
  ends in Go's integer-division panic instead of a value or the guarded error.
\<close>

theorem integer_division_guard_gap:
  assumes "evaluate X i l = (Inr a, i1)" and "evaluate X i1 r = (Inr b, i2)"
    and "IsNumeric a" and "IsNumeric b"
    and "0 < \<bar>ToFloat X b\<bar>" and "\<bar>ToFloat X b\<bar> < 1"
  shows "evaluate X i (BinaryExpr l [CHR 0x5C] r) =
           (Inl (RuntimePanic ''integer divide by zero''), i2) \<and>
         evaluate X i (BinaryExpr l ''MOD'' r) =
           (Inl (RuntimePanic ''integer divide by zero''), i2)"
proof -
  have nz: "ToFloat X b \<noteq> 0" using assms(5) by auto
  have tz: "int64_of_float X (ToFloat X b) = 0" by (rule int64_of_small [OF assms(6)])
  show ?thesis
    unfolding evaluate_BinaryExpr_values [OF assms(1,2)] values_numeric [OF assms(3,4)]
      numeric_backslash numeric_MOD
    using nz tz by simp
qed

theorem integer_division_guard_gap_witness:
  "evaluate bareHost (New NewProgram) (BinaryExpr (IntegerLiteral 7) [CHR 0x5C] (FloatLiteral (1 / 2))) =
     (Inl (RuntimePanic ''integer divide by zero''), New NewProgram) \<and>
   evaluate bareHost (New NewProgram) (BinaryExpr (IntegerLiteral 7) ''MOD'' (FloatLiteral (1 / 2))) =
     (Inl (RuntimePanic ''integer divide by zero''), New NewProgram)"
proof -
  have l: "evaluate bareHost (New NewProgram) (IntegerLiteral 7) = (Inr (LongValue 7), New NewProgram)"
    by simp
  have h: "evaluate bareHost (New NewProgram) (FloatLiteral (1 / 2)) = (Inr (DoubleValue (1 / 2)), New NewProgram)"
    by simp
  have n: "IsNumeric (LongValue 7)" "IsNumeric (DoubleValue (1 / 2))"
    by (simp_all add: IsNumeric_def)
  have p: "0 < \<bar>ToFloat bareHost (DoubleValue (1 / 2))\<bar>" "\<bar>ToFloat bareHost (DoubleValue (1 / 2))\<bar> < 1"
    by simp_all
  show ?thesis
    using integer_division_guard_gap [OF l h n p] by simp
qed

section \<open>CHR$, ASC and LEN\<close>









section \<open>CINT, CLNG and CDBL\<close>

lemma RoundToEven_nearest:
  "\<exists>n. RoundToEven x = real_of_int n \<and> \<bar>real_of_int n - x\<bar> \<le> 1 / 2 \<and>
       (\<bar>real_of_int n - x\<bar> = 1 / 2 \<longrightarrow> even n)"
proof -
  define f where "f = \<lfloor>x\<rfloor>"
  define d where "d = x - real_of_int f"
  have d0: "0 \<le> d" and d1: "d < 1"
    unfolding d_def f_def by linarith+
  have x: "x = real_of_int f + d"
    by (simp add: d_def)
  have R: "RoundToEven x =
      (if d < 1 / 2 then real_of_int f
       else if 1 / 2 < d then real_of_int (f + 1)
       else if even f then real_of_int f else real_of_int (f + 1))"
    by (simp add: RoundToEven_def Let_def f_def d_def)
  consider (lo) "d < 1 / 2" | (hi) "1 / 2 < d" | (tie) "d = 1 / 2"
    by linarith
  then show ?thesis
  proof cases
    case lo
    then have "RoundToEven x = real_of_int f" using R by simp
    moreover have "\<bar>real_of_int f - x\<bar> < 1 / 2" using lo d0 x by simp
    ultimately show ?thesis by (intro exI [of _ f]) simp
  next
    case hi
    then have "RoundToEven x = real_of_int (f + 1)" using R by simp
    moreover have "\<bar>real_of_int (f + 1) - x\<bar> < 1 / 2" using hi d1 x by simp
    ultimately show ?thesis by (intro exI [of _ "f + 1"]) simp
  next
    case tie
    show ?thesis
    proof (cases "even f")
      case True
      then have "RoundToEven x = real_of_int f" using R tie by simp
      moreover have "\<bar>real_of_int f - x\<bar> = 1 / 2" using tie x by simp
      ultimately show ?thesis using True by (intro exI [of _ f]) simp
    next
      case False
      then have "RoundToEven x = real_of_int (f + 1)" using R tie by simp
      moreover have "\<bar>real_of_int (f + 1) - x\<bar> = 1 / 2" using tie x by simp
      moreover have "even (f + 1)" using False by simp
      ultimately show ?thesis by (intro exI [of _ "f + 1"]) simp
    qed
  qed
qed

lemma RoundToEven_of_int: "RoundToEven (real_of_int n) = real_of_int n"
  by (simp add: RoundToEven_def)

lemma truncate_float_of_int: "truncate_float (real_of_int n) = n"
  by (simp add: truncate_float_def)

lemma sint_word16_in_range:
  assumes "- 32768 \<le> k" and "k \<le> 32767"
  shows "sint (word_of_int k :: 16 word) = k"
proof -
  have "- (2 ^ 15) \<le> k" "k < 2 ^ 15" using assms by simp_all
  then have "signed_take_bit 15 k = k"
    by (simp only: signed_take_bit_int_eq_self)
  then show ?thesis
    by (simp only: sint_sbintrunc') simp
qed

lemma sint_word32_in_range:
  assumes "- 2147483648 \<le> k" and "k \<le> 2147483647"
  shows "sint (word_of_int k :: 32 word) = k"
proof -
  have "- (2 ^ 31) \<le> k" "k < 2 ^ 31" using assms by simp_all
  then have "signed_take_bit 31 k = k"
    by (simp only: signed_take_bit_int_eq_self)
  then show ?thesis
    by (simp only: sint_sbintrunc') simp
qed

lemma int16_of_float_in_range:
  "- 32768 \<le> k \<Longrightarrow> k \<le> 32767 \<Longrightarrow> int16_of_float X (real_of_int k) = word_of_int k"
  by (simp add: int16_of_float_def truncate_float_of_int)

lemma int32_of_float_in_range:
  "- 2147483648 \<le> k \<Longrightarrow> k \<le> 2147483647 \<Longrightarrow>
   int32_of_float X (real_of_int k) = word_of_int k"
  by (simp add: int32_of_float_def truncate_float_of_int)

lemma sint_int16_range: "- 32768 \<le> sint (w :: 16 word) \<and> sint w \<le> 32767"
proof -
  have "- (2 ^ 15) \<le> sint w" "sint w < 2 ^ 15"
    using sint_ge [of w] sint_lt [of w] by simp_all
  then show ?thesis by simp
qed

text \<open>
  Claim C6, as amended. \<open>CINT\<close> and \<open>CLNG\<close> take the integer nearest to their argument,
  a tie going to the even integer, and return it whenever it lies in the range of the
  result kind (\<open>-32768 .. 32767\<close> for \<open>CINT\<close>, \<open>-2147483648 .. 2147483647\<close> for \<open>CLNG\<close>);
  so for every value whose number is an integer \<open>k\<close> of the Integer range,
  \<open>CINT(CDBL(x))\<close> is the Integer \<open>k\<close>, and \<open>CINT(CDBL(x)) = x\<close> for every Integer \<open>x\<close>.
\<close>

theorem CINT_rounds_half_to_even:
  "(\<exists>n. \<bar>real_of_int n - ToFloat X v\<bar> \<le> 1 / 2 \<and>
        (\<bar>real_of_int n - ToFloat X v\<bar> = 1 / 2 \<longrightarrow> even n) \<and>
        (- 32768 \<le> n \<and> n \<le> 32767 \<longrightarrow>
           fnCInt X [v] = Inr (IntegerValue (word_of_int n)) \<and>
           sint (word_of_int n :: int16) = n) \<and>
        (- 2147483648 \<le> n \<and> n \<le> 2147483647 \<longrightarrow>
           fnCLng X [v] = Inr (LongValue (word_of_int n)) \<and>
           sint (word_of_int n :: int32) = n)) \<and>
   (ToFloat X x = real_of_int k \<and> - 32768 \<le> k \<and> k \<le> 32767 \<longrightarrow>
      fnCDbl X [x] = Inr (DoubleValue (real_of_int k)) \<and>
      fnCInt X [DoubleValue (real_of_int k)] = Inr (IntegerValue (word_of_int k)) \<and>
      sint (word_of_int k :: int16) = k) \<and>
   (fnCDbl X [IntegerValue w] = Inr (DoubleValue (real_of_int (sint w))) \<and>
    fnCInt X [DoubleValue (real_of_int (sint w))] = Inr (IntegerValue w))"
proof (intro conjI impI)
  obtain n where n: "RoundToEven (ToFloat X v) = real_of_int n"
      "\<bar>real_of_int n - ToFloat X v\<bar> \<le> 1 / 2"
      "\<bar>real_of_int n - ToFloat X v\<bar> = 1 / 2 \<longrightarrow> even n"
    using RoundToEven_nearest [of "ToFloat X v"] by blast
  have c16: "fnCInt X [v] = Inr (IntegerValue (word_of_int n)) \<and>
      sint (word_of_int n :: int16) = n" if "- 32768 \<le> n \<and> n \<le> 32767"
    using that by (simp add: fnCInt_def n(1) int16_of_float_in_range sint_word16_in_range)
  have c32: "fnCLng X [v] = Inr (LongValue (word_of_int n)) \<and>
      sint (word_of_int n :: int32) = n" if "- 2147483648 \<le> n \<and> n \<le> 2147483647"
    using that by (simp add: fnCLng_def n(1) int32_of_float_in_range sint_word32_in_range)
  show "\<exists>n. \<bar>real_of_int n - ToFloat X v\<bar> \<le> 1 / 2 \<and>
        (\<bar>real_of_int n - ToFloat X v\<bar> = 1 / 2 \<longrightarrow> even n) \<and>
        (- 32768 \<le> n \<and> n \<le> 32767 \<longrightarrow>
           fnCInt X [v] = Inr (IntegerValue (word_of_int n)) \<and>
           sint (word_of_int n :: int16) = n) \<and>
        (- 2147483648 \<le> n \<and> n \<le> 2147483647 \<longrightarrow>
           fnCLng X [v] = Inr (LongValue (word_of_int n)) \<and>
           sint (word_of_int n :: int32) = n)"
    using n(2,3) c16 c32 by (intro exI [of _ n]) blast
next
  assume h: "ToFloat X x = real_of_int k \<and> - 32768 \<le> k \<and> k \<le> 32767"
  show "fnCDbl X [x] = Inr (DoubleValue (real_of_int k))"
    using h by (simp add: fnCDbl_def)
  show "fnCInt X [DoubleValue (real_of_int k)] = Inr (IntegerValue (word_of_int k))"
    using h by (simp add: fnCInt_def RoundToEven_of_int int16_of_float_in_range)
  show "sint (word_of_int k :: int16) = k"
    using h by (simp only: sint_word16_in_range)
next
  show "fnCDbl X [IntegerValue w] = Inr (DoubleValue (real_of_int (sint w)))"
    by (simp add: fnCDbl_def)
  have "int16_of_float X (RoundToEven (real_of_int (sint w))) = word_of_int (sint w)"
    unfolding RoundToEven_of_int using sint_int16_range [of w]
    by (intro int16_of_float_in_range) simp_all
  then have "int16_of_float X (RoundToEven (real_of_int (sint w))) = w"
    by simp
  then show "fnCInt X [DoubleValue (real_of_int (sint w))] = Inr (IntegerValue w)"
    by (simp add: fnCInt_def)
qed

theorem CINT_rounds_half_to_even_witness:
  "fnCInt bareHost [DoubleValue (5 / 2)] = Inr (IntegerValue 2) \<and>
   fnCLng bareHost [DoubleValue (5 / 2)] = Inr (LongValue 2) \<and>
   ToFloat bareHost (LongValue 7) = real_of_int 7 \<and>
   fnCDbl bareHost [LongValue 7] = Inr (DoubleValue 7) \<and>
   fnCInt bareHost [DoubleValue 7] = Inr (IntegerValue 7)"
proof -
  note T = CINT_rounds_half_to_even [of bareHost "DoubleValue (5 / 2)" "LongValue 7" 7 0]
  obtain n where n: "\<bar>real_of_int n - 5 / 2\<bar> \<le> 1 / 2"
      "\<bar>real_of_int n - 5 / 2\<bar> = 1 / 2 \<longrightarrow> even n"
      "- 32768 \<le> n \<and> n \<le> 32767 \<longrightarrow>
         fnCInt bareHost [DoubleValue (5 / 2)] = Inr (IntegerValue (word_of_int n))"
      "- 2147483648 \<le> n \<and> n \<le> 2147483647 \<longrightarrow>
         fnCLng bareHost [DoubleValue (5 / 2)] = Inr (LongValue (word_of_int n))"
    using T by auto
  have "2 \<le> n" "n \<le> 3" using n(1) by linarith+
  then have "n = 2 \<or> n = 3" by linarith
  then have "n = 2" using n(2) by auto
  then show ?thesis
    using n(3,4) T by simp
qed

text \<open>The claim as first stated fails outside the range: the integer nearest to 40000
  is 40000, which no Integer is, so \<open>CINT(40000)\<close> returns another number.\<close>

theorem CINT_out_of_range_counterexample:
  "RoundToEven 40000 = 40000 \<and>
   fnCInt bareHost [DoubleValue 40000] = Inr (IntegerValue (Int16OutOfRange bareHost 40000)) \<and>
   sint (Int16OutOfRange bareHost 40000) \<noteq> 40000"
proof -
  have r: "RoundToEven 40000 = 40000"
    using RoundToEven_of_int [of 40000] by simp
  have t: "truncate_float 40000 = 40000"
    using truncate_float_of_int [of 40000] by simp
  have "sint (Int16OutOfRange bareHost 40000) \<le> 32767"
    using sint_int16_range [of "Int16OutOfRange bareHost 40000"] by simp
  then have "sint (Int16OutOfRange bareHost 40000) \<noteq> 40000"
    by simp
  then show ?thesis
    using r by (simp add: fnCInt_def int16_of_float_def t)
qed

section \<open>The kinds of binary results\<close>











section \<open>Constants\<close>

lemma ascii_upper_char_idem: "ascii_upper_char (ascii_upper_char c) = ascii_upper_char c"
proof (cases "CHR ''a'' \<le> c \<and> c \<le> CHR ''z''")
  case True
  then have r: "97 \<le> (of_char c :: nat)" "(of_char c :: nat) \<le> 122"
    by (simp_all add: less_eq_char_def)
  then have "(of_char (char_of (of_char c - (32::nat))) :: nat) = of_char c - 32"
    by simp
  then have "\<not> (CHR ''a'' \<le> char_of (of_char c - (32::nat)))"
    using r by (simp add: less_eq_char_def)
  then show ?thesis by (simp add: ascii_upper_char_def)
next
  case False
  then have "ascii_upper_char c = c" by (auto simp: ascii_upper_char_def)
  then show ?thesis by simp
qed

lemma ascii_ToUpper_idem: "ascii_ToUpper (ascii_ToUpper s) = ascii_ToUpper s"
  by (simp add: ascii_ToUpper_def ascii_upper_char_idem)

lemma bareHost_ToUpper_N: "ToUpper bareHost ''N'' = ''N''"
  by (simp add: bareHost_def ascii_ToUpper_def ascii_upper_char_def less_eq_char_def)

lemma Environment_Set_constant:
  "constants e (ToUpper X name) = Some c \<Longrightarrow> Environment_Set X e name val = e"
  by (cases e) simp

lemma Environment_Get_constant:
  "constants e (ToUpper X name) = Some c \<Longrightarrow> Environment_Get X e name = Some c"
  by (cases e) simp

lemma DefineConst_defined:
  "constants e (ToUpper X name) = Some c \<Longrightarrow>
   DefineConst X e name val =
     Inl (Errorf (''constant '' @ ToUpper X name @ '' already defined''))"
  by (simp add: DefineConst_def)

lemma DefineConst_fresh:
  "constants e (ToUpper X name) = None \<Longrightarrow>
   \<exists>e'. DefineConst X e name val = Inr e' \<and> constants e' (ToUpper X name) = Some val"
  by (simp add: DefineConst_def)

text \<open>In the scope that holds the constant, \<open>Set\<close> returns without storing, so a LET on
  the name (when it does not also name an array) reports no error and changes nothing,
  and a second CONST on the name fails.\<close>

lemma constant_write_same_scope:
  assumes "constants (env i1) (ToUpper X name) = Some c"
  shows "Environment_Set X (env i1) name val = env i1 \<and>
         Environment_Get X (env i1) name = Some c \<and>
         (evaluate X i rhs = (Inr val, i1) \<and> GetArray X (env i1) name = None \<longrightarrow>
            executeLetStatement X i (Identifier name hint) rhs = (None, i1)) \<and>
         (evaluate X i rhs = (Inr val, i1) \<longrightarrow>
            executeConstStatement X i name rhs =
              (Some (Errorf (''constant '' @ ToUpper X name @ '' already defined'')), i1))"
  using assms Environment_Set_constant [OF assms] Environment_Get_constant [OF assms]
    DefineConst_defined [OF assms]
  by (auto simp: executeLetStatement_def executeConstStatement_def set_env_def)

text \<open>
  Claim C10 says that an assignment to a name defined as a constant is silently ignored
  and the constant keeps its value. The code protects the constant only in the scope that
  holds it, against the comment of \<open>Set\<close> (\<^verbatim>\<open>Don't allow modifying constants\<close>): with
  \<open>CONST N = 5\<close> at module level, the scope of a SUB or FUNCTION reads \<open>N\<close> as 5, the
  statement \<open>N = 7\<close> there reports no error and stores a local variable \<open>N\<close>, and \<open>N\<close>
  then reads as 7; the same statement at module level leaves the environment unchanged.
\<close>

theorem constant_shadowed_in_enclosed_scope:
  "Environment_Get bareHost (NewEnclosedEnvironment constEnv) ''N'' = Some (LongValue 5) \<and>
   executeLetStatement bareHost ((New NewProgram)\<lparr>env := NewEnclosedEnvironment constEnv\<rparr>)
     (Identifier ''N'' TypeUnknown) (IntegerLiteral 7) =
     (None, (New NewProgram)\<lparr>env :=
        Environment [''N'' \<mapsto> LongValue 7] Map.empty Map.empty (Some constEnv)\<rparr>) \<and>
   Environment_Get bareHost
     (Environment [''N'' \<mapsto> LongValue 7] Map.empty Map.empty (Some constEnv)) ''N'' =
     Some (LongValue 7) \<and>
   executeLetStatement bareHost ((New NewProgram)\<lparr>env := constEnv\<rparr>)
     (Identifier ''N'' TypeUnknown) (IntegerLiteral 7) =
     (None, (New NewProgram)\<lparr>env := constEnv\<rparr>) \<and>
   Environment_Get bareHost constEnv ''N'' = Some (LongValue 5)"
  by (simp add: NewEnclosedEnvironment_def constEnv_def bareHost_ToUpper_N
      executeLetStatement_def set_env_def)

section \<open>Undeclared scalars\<close>















section \<open>Assignment to an array element\<close>

lemma dim_state:
  "executeDimStatement bareHost (New NewProgram)
     [\<lparr>VarName = ''A%'', VarDimensions = [IntegerLiteral 2], VarDataType = TypeUnknown\<rparr>] =
   (None, (New NewProgram)\<lparr>env := Environment Map.empty [''A%'' \<mapsto> 0] Map.empty None,
        store := [0 \<mapsto> \<lparr>DataType = TypeInteger, Dimensions = [\<lparr>Lower = 0, Upper = 2\<rparr>],
                          Data = [IntegerValue 0, IntegerValue 0, IntegerValue 0]\<rparr>],
        nextAddr := 1\<rparr>)"
  by (simp add: executeDimVariable_def DeclareArray_def NewArray_def inferType_def SetArray_def
      New_def NewEnvironment_def ascii_ToUpper_def ascii_upper_char_def less_eq_char_def bareHost_def
      numeral_3_eq_3)

text \<open>What LET stores at a subscripted target: the value of the right-hand side, as it
  is.\<close>

lemma let_array_element_stores_rhs:
  assumes "evaluate X i rhs = (Inr val, i1)" and "GetArray X (env i1) fname = Some a"
    and "evaluateSubscripts X i1 arguments = (Inr subscripts, i2)"
    and "store i2 a = Some arr" and "GetIndex arr subscripts = Inr index"
    and "0 \<le> index" and "index < int (length (Data arr))"
  shows "executeLetStatement X i (CallExpr fname arguments) rhs =
           (None, i2\<lparr>store := (store i2)(a \<mapsto> arr\<lparr>Data := (Data arr)[nat index := val]\<rparr>)\<rparr>)"
  using assms by (simp add: executeLetStatement_def Array_Set_at_def Array_Set_def)

text \<open>
  Claim C1 says that LET stores, at a subscripted target, the right-hand side coerced to
  the array's element kind. The code stores the value as it is: after \<open>DIM A%(2)\<close> the
  statement \<open>A%(1) = 1.5\<close> leaves the Double 1.5 in an array of kind Integer, where the
  coercion (which INPUT applies on the same store) would give the Integer 1.
\<close>

theorem let_array_element_not_coerced:
  "executeLetStatement bareHost dimProgramState
     (CallExpr ''A%'' [IntegerLiteral 1]) (FloatLiteral (3 / 2)) =
   (None, dimProgramState\<lparr>store :=
      [0 \<mapsto> \<lparr>DataType = TypeInteger, Dimensions = [\<lparr>Lower = 0, Upper = 2\<rparr>],
               Data = [IntegerValue 0, DoubleValue (3 / 2), IntegerValue 0]\<rparr>]\<rparr>) \<and>
   Value_Type (DoubleValue (3 / 2)) \<noteq> TypeInteger \<and>
   CoerceValue bareHost (DoubleValue (3 / 2)) TypeInteger = IntegerValue 1"
  unfolding dimProgramState_def dim_state
  by (simp add: executeLetStatement_def Array_Set_at_def Array_Set_def GetIndex_def
      New_def NewEnvironment_def ascii_ToUpper_def ascii_upper_char_def less_eq_char_def bareHost_def
      CoerceValue_def int64_of_float_def truncate_float_def)

section \<open>RESTORE\<close>

lemma ToUpper_more: "ToUpper bareHost ''more'' = ''MORE''"
  by (simp add: bareHost_def ascii_ToUpper_def ascii_upper_char_def less_eq_char_def
      char_of_eq_iff)

lemma ToUpper_MORE: "ToUpper bareHost ''MORE'' = ''MORE''"
  by (simp add: bareHost_def ascii_ToUpper_def ascii_upper_char_def less_eq_char_def)

lemma SkipSpace_MORE: "SkipSpace ''MORE'' = Some ''MORE''"
  by (subst SkipSpace.simps) (simp add: ascii_space_def)

lemma labelled_program:
  "ParseProgram bareHost labelledData =
   \<lparr>Statements = labelledData, Labels = [''MORE'' \<mapsto> 1], LineNumbers = Map.empty,
    DataItems = [IntegerLiteral 1, IntegerLiteral 2, IntegerLiteral 3]\<rparr>"
  by (simp add: ParseProgram_def labelledData_def addStatement_def NewProgram_def ToUpper_more)

text \<open>What RESTORE does get right: without a target the pointer goes back to zero, and
  with a line number of a parsed program it becomes the number of DATA items that the
  statements before the numbered line contribute.\<close>

lemma ParseProgram_snoc: "ParseProgram X (stmts @ [s]) = addStatement X (ParseProgram X stmts) s"
  by (simp add: ParseProgram_def)

lemma ParseProgram_Statements: "Statements (ParseProgram X stmts) = stmts"
proof (induction stmts rule: rev_induct)
  case Nil
  then show ?case by (simp add: ParseProgram_def NewProgram_def)
next
  case (snoc s stmts)
  then show ?case
    by (cases s) (simp_all add: ParseProgram_snoc addStatement_def Let_def)
qed

lemma ParseProgram_DataItems: "DataItems (ParseProgram X stmts) = concat (map data_values stmts)"
proof (induction stmts rule: rev_induct)
  case Nil
  then show ?case by (simp add: ParseProgram_def NewProgram_def)
next
  case (snoc s stmts)
  then show ?case
    by (cases s) (simp_all add: ParseProgram_snoc addStatement_def Let_def)
qed

lemma ParseProgram_LineNumbers:
  "LineNumbers (ParseProgram X stmts) n = Some idx \<Longrightarrow>
   0 \<le> idx \<and> idx < int (length stmts) \<and> stmts ! nat idx = LineNumberStmt n"
proof (induction stmts arbitrary: idx rule: rev_induct)
  case Nil
  then show ?case by (simp add: ParseProgram_def NewProgram_def)
next
  case (snoc s stmts)
  show ?case
  proof (cases "s = LineNumberStmt n")
    case True
    then have "idx = int (length stmts)"
      using snoc.prems by (simp add: ParseProgram_snoc addStatement_def Let_def ParseProgram_Statements)
    then show ?thesis using True by simp
  next
    case False
    then have "LineNumbers (ParseProgram X stmts) n = Some idx"
      using snoc.prems
      by (cases s) (simp_all add: ParseProgram_snoc addStatement_def Let_def split: if_splits)
    from snoc.IH [OF this] have b: "0 \<le> idx" "idx < int (length stmts)"
        "stmts ! nat idx = LineNumberStmt n"
      by simp_all
    then have "nat idx < length stmts" by linarith
    then show ?thesis using b by (simp add: nth_append)
  qed
qed

lemma count_data_length: "count_data stmts = int (length (concat (map data_values stmts)))"
  by (induction stmts rule: count_data.induct) simp_all

lemma restore_without_target: "executeRestoreStatement X i [] = (None, set_DataPointer i 0)"
  by (simp add: executeRestoreStatement_def)

lemma restore_line_number:
  assumes "program i = ParseProgram X stmts" and "target \<noteq> []"
    and "parseLineNumber (ToUpper X target) = Some n"
    and "LineNumbers (ParseProgram X stmts) n = Some idx"
  shows "executeRestoreStatement X i target =
           (None, set_DataPointer i (int (length (DataItems (ParseProgram X (take (nat idx) stmts))))))"
proof -
  have "idx < int (length stmts)"
    using ParseProgram_LineNumbers [OF assms(4)] by simp
  then show ?thesis
    using assms
    by (simp add: executeRestoreStatement_def ParseProgram_Statements ParseProgram_DataItems
        count_data_length)
qed

text \<open>
  Claim C4 says that RESTORE with a label sets the DATA pointer to the number of DATA
  items before the labelled statement. The code resolves line numbers only: in a program
  whose label \<open>more\<close> stands after two DATA items, GOTO resolves the label and RESTORE
  reports it as undefined, leaving the pointer alone.
\<close>

theorem restore_label_fails:
  "Labels (ParseProgram bareHost labelledData) ''MORE'' = Some 1 \<and>
   executeGotoStatement bareHost (New (ParseProgram bareHost labelledData)) ''more'' =
     (None, set_ProgramCounter (New (ParseProgram bareHost labelledData)) 0) \<and>
   executeRestoreStatement bareHost (New (ParseProgram bareHost labelledData)) ''more'' =
     (Some (Errorf ''undefined label or line number: more''), New (ParseProgram bareHost labelledData))"
  unfolding labelled_program
  by (simp add: executeGotoStatement_def executeRestoreStatement_def goto_label_def
      parseLineNumber_def Sscanf_d_def SkipSpace_MORE is_digit_def New_def
      ToUpper_more ToUpper_MORE less_eq_char_def)

section \<open>PRINT\<close>































end
